theory Spec2Isabelle
  imports Main
begin

section \<open>The multiple Indy ledger manager provider\<close>

text \<open>
  A model of \<^verbatim>\<open>MultiIndyLedgerManagerProvider\<close> of
  \<^verbatim>\<open>aries_cloudagent/ledger/multiple_ledger/manager_provider.py\<close>.
  Exceptions are values of \<open>exn\<close>, a fallible step returns \<open>exn + 'a\<close> with \<open>Inl\<close> the
  raised exception. Objects carry the number they were allocated under, so that two
  objects with equal fields are still told apart; the effects of a call (settings read,
  injector lookups, objects constructed, classes loaded) are recorded in a \<open>world\<close>.
\<close>

subsection \<open>Exceptions\<close>

text \<open>
  The exception classes the module names (\<^verbatim>\<open>MultipleLedgerManagerError\<close>,
  \<^verbatim>\<open>InjectionError\<close>, \<^verbatim>\<open>ClassNotFoundError\<close>), the builtin ones its statements can
  raise, and \<open>ModuleLoadError\<close> for any other failure of the class loader.
  \<open>InjectionError msg cause\<close> is \<^verbatim>\<open>raise InjectionError(msg) from cause\<close>.
\<close>

datatype exn =
    MultipleLedgerManagerError string
  | InjectionError string exn
  | ClassNotFoundError string
  | ModuleLoadError string
  | KeyError "string option"
  | TypeError
  | AttributeError

text \<open>The class of an exception, forgetting its arguments.\<close>

datatype exn_class =
    CMultipleLedgerManagerError
  | CInjectionError
  | CClassNotFoundError
  | CModuleLoadError
  | CKeyError
  | CTypeError
  | CAttributeError

fun class_of :: "exn \<Rightarrow> exn_class" where
  "class_of (MultipleLedgerManagerError m) = CMultipleLedgerManagerError"
| "class_of (InjectionError m c) = CInjectionError"
| "class_of (ClassNotFoundError m) = CClassNotFoundError"
| "class_of (ModuleLoadError m) = CModuleLoadError"
| "class_of (KeyError k) = CKeyError"
| "class_of TypeError = CTypeError"
| "class_of AttributeError = CAttributeError"

subsection \<open>Values and truthiness\<close>

text \<open>
  \<^verbatim>\<open>config.get(key)\<close> and \<^verbatim>\<open>settings.get_value(key)\<close> return \<^verbatim>\<open>None\<close> for an absent
  key: every value read that way is an option, \<open>None\<close> being Python's \<^verbatim>\<open>None\<close>.
  An \<^verbatim>\<open>if\<close> on such a value tests its truthiness.
\<close>

definition truthy_bool :: "bool option \<Rightarrow> bool" where
  "truthy_bool v = (case v of None \<Rightarrow> False | Some b \<Rightarrow> b)"

definition truthy_str :: "string option \<Rightarrow> bool" where
  "truthy_str v = (case v of None \<Rightarrow> False | Some s \<Rightarrow> s \<noteq> [])"

subsection \<open>Data\<close>

text \<open>One entry of \<^verbatim>\<open>ledger.ledger_config_list\<close>: a dict, read only through \<^verbatim>\<open>get\<close>.\<close>

record config =
  cfg_id :: "string option"
  cfg_pool_name :: "string option"
  cfg_is_production :: "bool option"
  cfg_is_write :: "bool option"
  cfg_keepalive :: "int option"
  cfg_read_only :: "bool option"
  cfg_socks_proxy :: "string option"
  cfg_genesis_transactions :: "string option"

datatype pool_class = IndySdkLedgerPool | IndyVdrLedgerPool | OtherLedgerPool

datatype ledger_class = IndySdkLedger | IndyVdrLedger | OtherLedger

text \<open>A pool object: its identity, its class, and the constructor's arguments.\<close>

record ledger_pool =
  pool_ref :: nat
  pool_cls :: pool_class
  name :: "string option"
  keepalive :: "int option"
  cache :: "nat option"
  genesis_transactions :: "string option"
  read_only :: "bool option"
  socks_proxy :: "string option"

text \<open>A ledger object; \<open>profile\<close> is the identity of the profile it was given.\<close>

record ledger =
  ledger_ref :: nat
  ledger_cls :: ledger_class
  pool :: ledger_pool
  profile :: nat

datatype profile_kind = IndySdkProfile | AskarProfile | OtherProfile

text \<open>
  The root profile: its identity, which of the two classes it is an instance of (if
  any), and what \<^verbatim>\<open>root_profile.inject_or(BaseLedger)\<close> returns.
\<close>

record root =
  profile_ref :: nat
  kind :: profile_kind
  base_ledger :: "ledger option"

text \<open>The injector: what \<^verbatim>\<open>injector.inject_or(BaseCache)\<close> returns.\<close>

record injector =
  base_cache :: "nat option"

text \<open>The two settings \<^verbatim>\<open>provide\<close> reads.\<close>

record settings =
  ledger_ledger_config_list :: "config list option"
  ledger_genesis_transactions :: "string option"

type_synonym ledgers = "(string option \<times> ledger) list"

text \<open>The manager object: its identity, its class path and the constructor's arguments.\<close>

record manager =
  manager_ref :: nat
  manager_cls :: "string option"
  manager_profile :: nat
  production_ledgers :: ledgers
  non_production_ledgers :: ledgers
  write_ledger_info :: "(string option \<times> ledger) option"

text \<open>The provider object: \<^verbatim>\<open>self.root_profile\<close> and the cache \<^verbatim>\<open>self._inst\<close>.\<close>

record provider =
  root_profile :: root
  inst :: "string option \<rightharpoonup> manager"

subsection \<open>Effects\<close>

datatype event =
    LogInfo string
  | GetValue string
  | InjectOrBaseCache
  | InjectOrBaseLedger
  | NewPool nat
  | NewLedger nat
  | LoadClass "string option"
  | NewManager nat

record world =
  next_ref :: nat
  events :: "event list"

definition emit :: "event \<Rightarrow> world \<Rightarrow> world" where
  "emit e w = w\<lparr>events := events w @ [e]\<rparr>"

definition alloc :: "world \<Rightarrow> nat \<times> world" where
  "alloc w = (next_ref w, w\<lparr>next_ref := Suc (next_ref w)\<rparr>)"

subsection \<open>OrderedDict\<close>

text \<open>
  An \<^verbatim>\<open>OrderedDict\<close> is the list of its items in insertion order. \<^verbatim>\<open>d[k] = v\<close>
  replaces the value of a key that is present, in place, and appends the item otherwise.
  \<^verbatim>\<open>d.move_to_end(k, last=to_last)\<close> raises \<^verbatim>\<open>KeyError\<close> for a key that is absent.
\<close>

fun od_setitem :: "('k \<times> 'v) list \<Rightarrow> 'k \<Rightarrow> 'v \<Rightarrow> ('k \<times> 'v) list" where
  "od_setitem [] k v = [(k, v)]"
| "od_setitem ((k', v') # d) k v =
     (if k' = k then (k', v) # d else (k', v') # od_setitem d k v)"

definition od_move_to_end ::
  "(string option \<times> 'v) list \<Rightarrow> string option \<Rightarrow> bool \<Rightarrow> exn + (string option \<times> 'v) list" where
  "od_move_to_end d k to_last =
     (case map_of d k of
        None \<Rightarrow> Inl (KeyError k)
      | Some v \<Rightarrow>
          Inr (if to_last then filter (\<lambda>p. fst p \<noteq> k) d @ [(k, v)]
               else (k, v) # filter (\<lambda>p. fst p \<noteq> k) d))"

abbreviation keys :: "('k \<times> 'v) list \<Rightarrow> 'k list" where
  "keys d \<equiv> map fst d"

subsection \<open>The provider\<close>

definition askar_manager_path :: string where
  "askar_manager_path =
     ''aries_cloudagent.ledger.multiple_ledger.indy_vdr_manager.MultiIndyVDRLedgerManager''"

definition basic_manager_path :: string where
  "basic_manager_path =
     ''aries_cloudagent.ledger.multiple_ledger.indy_manager.MultiIndyLedgerManager''"

definition MANAGER_TYPES :: "(string \<times> string) list" where
  "MANAGER_TYPES = [(''basic'', basic_manager_path), (''askar-profile'', askar_manager_path)]"

text \<open>\<^verbatim>\<open>__init__\<close>: an empty cache.\<close>

definition init :: "root \<Rightarrow> provider" where
  "init rp = \<lparr>root_profile = rp, inst = Map.empty\<rparr>"

text \<open>The local variables of the construction: the two partitions and the write ledger.\<close>

record build =
  production :: ledgers
  non_production :: ledgers
  write_info :: "(string option \<times> ledger) option"

definition empty_build :: build where
  "empty_build = \<lparr>production = [], non_production = [], write_info = None\<rparr>"

text \<open>
  The constructors of the pool and of the ledger (\<^verbatim>\<open>IndySdkLedgerPool(...)\<close>,
  \<^verbatim>\<open>IndySdkLedger(pool=..., profile=...)\<close> and their Indy VDR counterparts) are
  external: each allocates an object that keeps the arguments it was given.
\<close>

definition new_pool ::
  "pool_class \<Rightarrow> string option \<Rightarrow> int option \<Rightarrow> nat option \<Rightarrow> string option \<Rightarrow> bool option
     \<Rightarrow> string option \<Rightarrow> world \<Rightarrow> ledger_pool \<times> world" where
  "new_pool cls pool_name ka ch gt ro sp w =
     (let (r, w1) = alloc w in
      (\<lparr>pool_ref = r, pool_cls = cls, name = pool_name, keepalive = ka, cache = ch,
        genesis_transactions = gt, read_only = ro, socks_proxy = sp\<rparr>,
       emit (NewPool r) w1))"

definition new_ledger :: "ledger_class \<Rightarrow> ledger_pool \<Rightarrow> root \<Rightarrow> world \<Rightarrow> ledger \<times> world" where
  "new_ledger cls ledger_pool rp w =
     (let (r, w1) = alloc w in
      (\<lparr>ledger_ref = r, ledger_cls = cls, pool = ledger_pool, profile = profile_ref rp\<rparr>,
       emit (NewLedger r) w1))"

text \<open>
  The body of \<^verbatim>\<open>for config in ledger_config_list\<close> (lines 68 to 94, and 116 to 142
  with the Indy VDR classes): one cache lookup, one pool, one ledger, then the write
  ledger and the partition.
\<close>

definition config_step :: "string \<Rightarrow> root \<Rightarrow> injector \<Rightarrow> config \<Rightarrow> build \<times> world \<Rightarrow> build \<times> world" where
  "config_step manager_type rp injector config bw =
     (let (b, w) = bw;
          ka = cfg_keepalive config;
          ro = cfg_read_only config;
          sp = cfg_socks_proxy config;
          gt = cfg_genesis_transactions config;
          ch = base_cache injector;
          w1 = emit InjectOrBaseCache w;
          ledger_id = cfg_id config;
          pool_name = cfg_pool_name config;
          ledger_is_production = cfg_is_production config;
          ledger_is_write = cfg_is_write config;
          (ledger_pool, w2) =
            new_pool (if manager_type = ''basic'' then IndySdkLedgerPool else IndyVdrLedgerPool)
              pool_name ka ch gt ro sp w1;
          (ledger_instance, w3) =
            new_ledger (if manager_type = ''basic'' then IndySdkLedger else IndyVdrLedger)
              ledger_pool rp w2;
          b1 = (if truthy_bool ledger_is_write
                then b\<lparr>write_info := Some (ledger_id, ledger_instance)\<rparr> else b);
          b2 = (if truthy_bool ledger_is_production
                then b1\<lparr>production := od_setitem (production b1) ledger_id ledger_instance\<rparr>
                else b1\<lparr>non_production := od_setitem (non_production b1) ledger_id ledger_instance\<rparr>)
      in (b2, w3))"

primrec config_loop :: "string \<Rightarrow> root \<Rightarrow> injector \<Rightarrow> config list \<Rightarrow> build \<times> world \<Rightarrow> build \<times> world" where
  "config_loop manager_type rp injector [] bw = bw"
| "config_loop manager_type rp injector (config # rest) bw =
     config_loop manager_type rp injector rest (config_step manager_type rp injector config bw)"

text \<open>
  Lines 96 to 103, the body of \<^verbatim>\<open>if settings.get_value("ledger.genesis_transactions")\<close>
  of the basic variant. Without a ledger on the root profile \<^verbatim>\<open>ledger_instance.pool\<close>
  raises \<^verbatim>\<open>AttributeError\<close>, with a pool name that is \<^verbatim>\<open>None\<close> the concatenation
  raises \<^verbatim>\<open>TypeError\<close>.
\<close>

definition basic_fallback :: "root \<Rightarrow> build \<Rightarrow> world \<Rightarrow> (exn + build) \<times> world" where
  "basic_fallback rp b w =
     (let w1 = emit InjectOrBaseLedger w in
      case base_ledger rp of
        None \<Rightarrow> (Inl AttributeError, w1)
      | Some ledger_instance \<Rightarrow>
          (case name (pool ledger_instance) of
             None \<Rightarrow> (Inl TypeError, w1)
           | Some n \<Rightarrow>
               let ledger_id = Some (''startup::'' @ n);
                   b1 = b\<lparr>production := od_setitem (production b) ledger_id ledger_instance\<rparr>
               in (case write_info b1 of
                     Some wl \<Rightarrow> (Inr b1, w1)
                   | None \<Rightarrow>
                       (case od_move_to_end (production b1) ledger_id False of
                          Inl e \<Rightarrow> (Inl e, w1)
                        | Inr d \<Rightarrow>
                            (Inr (b1\<lparr>write_info := Some (ledger_id, ledger_instance),
                                      production := d\<rparr>), w1)))))"

text \<open>Lines 144 to 151, the same step of the askar-profile variant.\<close>

definition askar_fallback :: "root \<Rightarrow> build \<Rightarrow> world \<Rightarrow> (exn + build) \<times> world" where
  "askar_fallback rp b w =
     (let w1 = emit InjectOrBaseLedger w in
      case base_ledger rp of
        None \<Rightarrow> (Inl AttributeError, w1)
      | Some ledger_instance \<Rightarrow>
          (case name (pool ledger_instance) of
             None \<Rightarrow> (Inl TypeError, w1)
           | Some n \<Rightarrow>
               let ledger_id = Some (''startup::'' @ n);
                   b1 = b\<lparr>production := od_setitem (production b) ledger_id ledger_instance\<rparr>
               in (case write_info b1 of
                     Some wl \<Rightarrow> (Inr b1, w1)
                   | None \<Rightarrow>
                       (case od_move_to_end (non_production b1) ledger_id False of
                          Inl e \<Rightarrow> (Inl e, w1)
                        | Inr d \<Rightarrow>
                            (Inr (b1\<lparr>write_info := Some (ledger_id, ledger_instance),
                                      non_production := d\<rparr>), w1)))))"

text \<open>
  The partitions and the write ledger, lines 63 to 103 and 111 to 151: the list is read
  (iterating over \<^verbatim>\<open>None\<close> raises \<^verbatim>\<open>TypeError\<close>), the loop runs, the genesis setting is
  read and the fallback step taken when it is truthy.
\<close>

definition build_ledgers ::
  "settings \<Rightarrow> injector \<Rightarrow> root \<Rightarrow> string \<Rightarrow> world \<Rightarrow> (exn + build) \<times> world" where
  "build_ledgers st injector rp manager_type w =
     (let w1 = emit (GetValue ''ledger.ledger_config_list'') w in
      case ledger_ledger_config_list st of
        None \<Rightarrow> (Inl TypeError, w1)
      | Some ledger_config_list \<Rightarrow>
          let (b, w2) = config_loop manager_type rp injector ledger_config_list (empty_build, w1);
              w3 = emit (GetValue ''ledger.genesis_transactions'') w2
          in if truthy_str (ledger_genesis_transactions st)
             then (if manager_type = ''basic'' then basic_fallback rp b w3
                   else askar_fallback rp b w3)
             else (Inr b, w3))"

text \<open>
  Lines 104 to 109 and 152 to 157: \<^verbatim>\<open>ClassLoader.load_class(manager_class)\<close>, a
  parameter that says which exception it raises for a path (\<open>None\<close>: it returns the
  class), and the call of the class, which allocates the manager.
\<close>

definition new_manager ::
  "(string option \<Rightarrow> exn option) \<Rightarrow> root \<Rightarrow> string option \<Rightarrow> build \<Rightarrow> world \<Rightarrow> (exn + manager) \<times> world" where
  "new_manager load_class rp manager_class b w =
     (let w1 = emit (LoadClass manager_class) w in
      case load_class manager_class of
        Some e \<Rightarrow> (Inl e, w1)
      | None \<Rightarrow>
          let (mr, w2) = alloc w1 in
          (Inr \<lparr>manager_ref = mr,
                manager_cls = manager_class,
                manager_profile = profile_ref rp,
                production_ledgers = production b,
                non_production_ledgers = non_production b,
                write_ledger_info = write_info b\<rparr>,
           emit (NewManager mr) w2))"

text \<open>The body of the \<^verbatim>\<open>try\<close>, up to the assignment to \<^verbatim>\<open>self._inst\<close>.\<close>

definition construct ::
  "(string option \<Rightarrow> exn option) \<Rightarrow> settings \<Rightarrow> injector \<Rightarrow> root \<Rightarrow> string \<Rightarrow> string option \<Rightarrow> world
     \<Rightarrow> (exn + manager) \<times> world" where
  "construct load_class st injector rp manager_type manager_class w =
     (case build_ledgers st injector rp manager_type w of
        (Inl e, w1) \<Rightarrow> (Inl e, w1)
      | (Inr b, w1) \<Rightarrow> new_manager load_class rp manager_class b w1)"

definition unsupported_profile_msg :: string where
  "unsupported_profile_msg =
     ''MultiIndyLedgerManagerProvider expects an IndySDKProfile [indy]  or AskarProfile [indy_vdr] as root_profile''"

text \<open>The message logged at line 60 and the message of the error raised at line 159.\<close>

definition create_msg :: "string \<Rightarrow> string" where
  "create_msg manager_type = ''Create multiple Indy ledger manager: '' @ manager_type"

definition unknown_type_msg :: "string \<Rightarrow> string" where
  "unknown_type_msg manager_type = ''Unknown multiple Indy ledger manager type: '' @ manager_type"

text \<open>Lines 47 to 55: the manager type of the root profile, or the error.\<close>

definition select_manager_type :: "root \<Rightarrow> exn + string" where
  "select_manager_type rp =
     (if kind rp = IndySdkProfile then Inr ''basic''
      else if kind rp = AskarProfile then Inr ''askar-profile''
      else Inl (MultipleLedgerManagerError unsupported_profile_msg))"

text \<open>
  \<^verbatim>\<open>provide\<close>. The result is what the call returns or raises, the provider and the world
  after it. The handler wraps a \<^verbatim>\<open>ClassNotFoundError\<close> and lets every other exception
  pass.
\<close>

definition provide ::
  "(string option \<Rightarrow> exn option) \<Rightarrow> settings \<Rightarrow> injector \<Rightarrow> provider \<times> world
     \<Rightarrow> (exn + manager) \<times> provider \<times> world" where
  "provide load_class st injector sw =
     (let (self, w) = sw in
      case select_manager_type (root_profile self) of
        Inl e \<Rightarrow> (Inl e, self, w)
      | Inr manager_type \<Rightarrow>
          let manager_class = map_of MANAGER_TYPES manager_type
          in (case inst self manager_class of
                Some m \<Rightarrow> (Inr m, self, w)
              | None \<Rightarrow>
                  let w1 = emit (LogInfo (create_msg manager_type)) w
                  in (case construct load_class st injector (root_profile self) manager_type manager_class w1 of
                        (Inl (ClassNotFoundError x), w2) \<Rightarrow>
                          (Inl (InjectionError (unknown_type_msg manager_type)
                                  (ClassNotFoundError x)), self, w2)
                      | (Inl e, w2) \<Rightarrow> (Inl e, self, w2)
                      | (Inr m, w2) \<Rightarrow>
                          (Inr m, self\<lparr>inst := (inst self)(manager_class \<mapsto> m)\<rparr>, w2))))"

subsection \<open>Notions used in the statements\<close>

text \<open>
  The ledger the loop builds for an entry when the allocation counter stands at \<open>r\<close>:
  the pool takes \<open>r\<close>, the ledger \<open>Suc r\<close>.
\<close>

definition entry_ledger :: "string \<Rightarrow> root \<Rightarrow> injector \<Rightarrow> config \<Rightarrow> nat \<Rightarrow> ledger" where
  "entry_ledger manager_type rp injector config r =
     fst (new_ledger (if manager_type = ''basic'' then IndySdkLedger else IndyVdrLedger)
            (fst (new_pool (if manager_type = ''basic'' then IndySdkLedgerPool else IndyVdrLedgerPool)
                    (cfg_pool_name config) (cfg_keepalive config) (base_cache injector)
                    (cfg_genesis_transactions config) (cfg_read_only config)
                    (cfg_socks_proxy config) \<lparr>next_ref = r, events = []\<rparr>))
            rp \<lparr>next_ref = Suc r, events = []\<rparr>)"

text \<open>
  The synthetic id of the fallback ledger, when the genesis setting is truthy and the
  root profile has a ledger whose pool is named.
\<close>

definition injected_ids :: "settings \<Rightarrow> root \<Rightarrow> string option set" where
  "injected_ids st rp =
     (if truthy_str (ledger_genesis_transactions st)
      then (case base_ledger rp of
              None \<Rightarrow> {}
            | Some l \<Rightarrow> (case name (pool l) of None \<Rightarrow> {} | Some n \<Rightarrow> {Some (''startup::'' @ n)}))
      else {})"

subsection \<open>Concrete inputs\<close>

text \<open>A complete entry, and an entry with every field missing.\<close>

definition entry :: "string \<Rightarrow> bool \<Rightarrow> bool \<Rightarrow> config" where
  "entry i is_prod is_wr =
     \<lparr>cfg_id = Some i, cfg_pool_name = Some (''pool-'' @ i), cfg_is_production = Some is_prod,
      cfg_is_write = Some is_wr, cfg_keepalive = Some 5, cfg_read_only = Some False,
      cfg_socks_proxy = None, cfg_genesis_transactions = Some ''{}''\<rparr>"

definition blank_entry :: config where
  "blank_entry =
     \<lparr>cfg_id = None, cfg_pool_name = None, cfg_is_production = None, cfg_is_write = None,
      cfg_keepalive = None, cfg_read_only = None, cfg_socks_proxy = None,
      cfg_genesis_transactions = None\<rparr>"

text \<open>The ledger already configured on the root profile, with pool name \<^verbatim>\<open>main\<close>.\<close>

definition main_ledger :: ledger where
  "main_ledger =
     \<lparr>ledger_ref = 1, ledger_cls = OtherLedger,
      pool = \<lparr>pool_ref = 0, pool_cls = OtherLedgerPool, name = Some ''main'',
              keepalive = Some 5, cache = None, genesis_transactions = Some ''{}'',
              read_only = Some False, socks_proxy = None\<rparr>,
      profile = 2\<rparr>"

definition root_of :: "profile_kind \<Rightarrow> root" where
  "root_of k = \<lparr>profile_ref = 2, kind = k, base_ledger = Some main_ledger\<rparr>"

definition world0 :: world where
  "world0 = \<lparr>next_ref = 3, events = []\<rparr>"

definition no_cache :: injector where
  "no_cache = \<lparr>base_cache = None\<rparr>"

definition settings_of :: "config list \<Rightarrow> bool \<Rightarrow> settings" where
  "settings_of cs genesis =
     \<lparr>ledger_ledger_config_list = Some cs,
      ledger_genesis_transactions = (if genesis then Some ''{}'' else None)\<rparr>"

text \<open>A class loader that finds every class, and one that finds none.\<close>

definition load_ok :: "string option \<Rightarrow> exn option" where
  "load_ok p = None"

definition load_missing :: "string option \<Rightarrow> exn option" where
  "load_missing p = Some (ClassNotFoundError (case p of None \<Rightarrow> [] | Some c \<Rightarrow> c))"


definition written_partitions :: build where
  "written_partitions =
     fst (config_loop ''basic'' (root_of IndySdkProfile) no_cache
            [entry ''L1'' True True, entry ''L2'' False False] (empty_build, world0))"

section \<open>Properties\<close>

subsection \<open>OrderedDict\<close>

lemma image_Collect_set: "f ` {x \<in> set xs. P x} = set (map f (filter P xs))"
  by auto

lemma keys_od_setitem:
  "keys (od_setitem d k v) = (if k \<in> set (keys d) then keys d else keys d @ [k])"
  by (induction d) force+

lemma filter_od_setitem:
  "filter (\<lambda>p. fst p \<noteq> k) (od_setitem d k v) = filter (\<lambda>p. fst p \<noteq> k) d"
  by (induction d) auto

lemma map_of_od_setitem: "map_of (od_setitem d k v) = (map_of d)(k \<mapsto> v)"
  by (induction d) auto

lemma set_keys_od_setitem: "fst ` set (od_setitem d k v) = insert k (fst ` set d)"
proof -
  have "set (keys (od_setitem d k v)) = insert k (set (keys d))"
    unfolding keys_od_setitem by auto
  then show ?thesis by simp
qed

lemma keys_filter: "keys (filter (\<lambda>p. fst p \<noteq> k) d) = filter (\<lambda>x. x \<noteq> k) (keys d)"
  by (induction d) auto

lemma distinct_keys_od_setitem: "distinct (keys d) \<Longrightarrow> distinct (keys (od_setitem d k v))"
  by (simp add: keys_od_setitem)

lemma od_move_to_end_present:
  "map_of d k = Some v \<Longrightarrow>
   od_move_to_end d k False = Inr ((k, v) # filter (\<lambda>p. fst p \<noteq> k) d)"
  by (simp add: od_move_to_end_def)

lemma od_move_to_end_absent: "k \<notin> set (keys d) \<Longrightarrow> od_move_to_end d k to_last = Inl (KeyError k)"
proof -
  assume "k \<notin> set (keys d)"
  then have "map_of d k = None" by (simp add: map_of_eq_None_iff)
  then show ?thesis by (simp add: od_move_to_end_def)
qed

lemma od_move_to_end_Inr:
  assumes "od_move_to_end d k False = Inr d'"
  shows "k \<in> set (keys d) \<and> keys d' = k # filter (\<lambda>x. x \<noteq> k) (keys d)"
proof -
  from assms obtain v where v: "map_of d k = Some v"
    by (auto simp: od_move_to_end_def split: option.splits)
  then have "k \<in> set (keys d)" by (metis map_of_eq_None_iff option.distinct(1) set_map)
  moreover from assms v have "d' = (k, v) # filter (\<lambda>p. fst p \<noteq> k) d"
    by (simp add: od_move_to_end_present)
  then have "keys d' = k # filter (\<lambda>x. x \<noteq> k) (keys d)"
    by (simp add: keys_filter)
  ultimately show ?thesis by simp
qed

subsection \<open>The loop over the entries\<close>

lemma config_step_build:
  "fst (config_step mt rp ij c (b, w)) =
     (let l = entry_ledger mt rp ij c (next_ref w);
          b1 = (if truthy_bool (cfg_is_write c) then b\<lparr>write_info := Some (cfg_id c, l)\<rparr> else b)
      in if truthy_bool (cfg_is_production c)
         then b1\<lparr>production := od_setitem (production b1) (cfg_id c) l\<rparr>
         else b1\<lparr>non_production := od_setitem (non_production b1) (cfg_id c) l\<rparr>)"
  by (simp add: config_step_def entry_ledger_def new_pool_def new_ledger_def alloc_def emit_def
      Let_def split_def)

lemma config_step_production:
  "production (fst (config_step mt rp ij c (b, w))) =
     (if truthy_bool (cfg_is_production c)
      then od_setitem (production b) (cfg_id c) (entry_ledger mt rp ij c (next_ref w))
      else production b)"
  by (simp add: config_step_build Let_def)

lemma config_step_non_production:
  "non_production (fst (config_step mt rp ij c (b, w))) =
     (if truthy_bool (cfg_is_production c) then non_production b
      else od_setitem (non_production b) (cfg_id c) (entry_ledger mt rp ij c (next_ref w)))"
  by (simp add: config_step_build Let_def)

lemma config_step_write_info:
  "write_info (fst (config_step mt rp ij c (b, w))) =
     (if truthy_bool (cfg_is_write c)
      then Some (cfg_id c, entry_ledger mt rp ij c (next_ref w))
      else write_info b)"
  by (simp add: config_step_build Let_def)

lemma config_step_next_ref:
  "next_ref (snd (config_step mt rp ij c (b, w))) = next_ref w + 2"
  by (simp add: config_step_def new_pool_def new_ledger_def alloc_def emit_def Let_def split_def)

lemma config_loop_append:
  "config_loop mt rp ij (xs @ ys) bw = config_loop mt rp ij ys (config_loop mt rp ij xs bw)"
  by (induction xs arbitrary: bw) simp_all

lemma config_loop_next_ref:
  "next_ref (snd (config_loop mt rp ij cs bw)) = next_ref (snd bw) + 2 * length cs"
proof (induction cs arbitrary: bw)
  case Nil
  show ?case by simp
next
  case (Cons c cs)
  obtain b w where bw: "bw = (b, w)" by (cases bw)
  show ?case by (simp add: Cons.IH bw config_step_next_ref)
qed

lemma config_loop_production_keys:
  "set (keys (production (fst (config_loop mt rp ij cs bw)))) =
     set (keys (production (fst bw))) \<union> cfg_id ` {c \<in> set cs. truthy_bool (cfg_is_production c)}"
proof (induction cs arbitrary: bw)
  case Nil
  show ?case by simp
next
  case (Cons c cs)
  obtain b w where bw: "bw = (b, w)" by (cases bw)
  show ?case
    using Cons.IH [of "config_step mt rp ij c (b, w)"]
    by (auto simp: bw config_step_production set_keys_od_setitem)
qed

lemma config_loop_non_production_keys:
  "set (keys (non_production (fst (config_loop mt rp ij cs bw)))) =
     set (keys (non_production (fst bw))) \<union>
     cfg_id ` {c \<in> set cs. \<not> truthy_bool (cfg_is_production c)}"
proof (induction cs arbitrary: bw)
  case Nil
  show ?case by simp
next
  case (Cons c cs)
  obtain b w where bw: "bw = (b, w)" by (cases bw)
  show ?case
    using Cons.IH [of "config_step mt rp ij c (b, w)"]
    by (auto simp: bw config_step_non_production set_keys_od_setitem)
qed

lemma config_loop_production_order:
  assumes "distinct (keys (production (fst bw)) @
             map cfg_id (filter (\<lambda>c. truthy_bool (cfg_is_production c)) cs))"
  shows "keys (production (fst (config_loop mt rp ij cs bw))) =
           keys (production (fst bw)) @
           map cfg_id (filter (\<lambda>c. truthy_bool (cfg_is_production c)) cs)"
  using assms
proof (induction cs arbitrary: bw)
  case Nil
  show ?case by simp
next
  case (Cons c cs)
  obtain b w where bw: "bw = (b, w)" by (cases bw)
  show ?case
  proof (cases "truthy_bool (cfg_is_production c)")
    case True
    with Cons.prems have fresh: "cfg_id c \<notin> set (keys (production b))"
      by (auto simp: bw)
    then have k: "keys (production (fst (config_step mt rp ij c (b, w)))) =
        keys (production b) @ [cfg_id c]"
      using True by (simp add: config_step_production keys_od_setitem)
    have "distinct (keys (production (fst (config_step mt rp ij c (b, w)))) @
        map cfg_id (filter (\<lambda>c. truthy_bool (cfg_is_production c)) cs))"
      using Cons.prems True unfolding k by (auto simp: bw)
    from Cons.IH [OF this] show ?thesis using True by (simp add: bw k)
  next
    case False
    then have k: "production (fst (config_step mt rp ij c (b, w))) = production b"
      by (simp add: config_step_production)
    have "distinct (keys (production (fst (config_step mt rp ij c (b, w)))) @
        map cfg_id (filter (\<lambda>c. truthy_bool (cfg_is_production c)) cs))"
      using Cons.prems False unfolding k by (simp add: bw)
    from Cons.IH [OF this] show ?thesis using False by (simp add: bw k)
  qed
qed

lemma config_loop_non_production_order:
  assumes "distinct (keys (non_production (fst bw)) @
             map cfg_id (filter (\<lambda>c. \<not> truthy_bool (cfg_is_production c)) cs))"
  shows "keys (non_production (fst (config_loop mt rp ij cs bw))) =
           keys (non_production (fst bw)) @
           map cfg_id (filter (\<lambda>c. \<not> truthy_bool (cfg_is_production c)) cs)"
  using assms
proof (induction cs arbitrary: bw)
  case Nil
  show ?case by simp
next
  case (Cons c cs)
  obtain b w where bw: "bw = (b, w)" by (cases bw)
  show ?case
  proof (cases "truthy_bool (cfg_is_production c)")
    case False
    with Cons.prems have fresh: "cfg_id c \<notin> set (keys (non_production b))"
      by (auto simp: bw)
    then have k: "keys (non_production (fst (config_step mt rp ij c (b, w)))) =
        keys (non_production b) @ [cfg_id c]"
      using False by (simp add: config_step_non_production keys_od_setitem)
    have "distinct (keys (non_production (fst (config_step mt rp ij c (b, w)))) @
        map cfg_id (filter (\<lambda>c. \<not> truthy_bool (cfg_is_production c)) cs))"
      using Cons.prems False unfolding k by (auto simp: bw)
    from Cons.IH [OF this] show ?thesis using False by (simp add: bw k)
  next
    case True
    then have k: "non_production (fst (config_step mt rp ij c (b, w))) = non_production b"
      by (simp add: config_step_non_production)
    have "distinct (keys (non_production (fst (config_step mt rp ij c (b, w)))) @
        map cfg_id (filter (\<lambda>c. \<not> truthy_bool (cfg_is_production c)) cs))"
      using Cons.prems True unfolding k by (simp add: bw)
    from Cons.IH [OF this] show ?thesis using True by (simp add: bw k)
  qed
qed

lemma config_loop_distinct:
  assumes "distinct (keys (production (fst bw)))" "distinct (keys (non_production (fst bw)))"
  shows "distinct (keys (production (fst (config_loop mt rp ij cs bw)))) \<and>
         distinct (keys (non_production (fst (config_loop mt rp ij cs bw))))"
  using assms
proof (induction cs arbitrary: bw)
  case Nil
  then show ?case by simp
next
  case (Cons c cs)
  obtain b w where bw: "bw = (b, w)" by (cases bw)
  have "distinct (keys (production (fst (config_step mt rp ij c bw))))"
       "distinct (keys (non_production (fst (config_step mt rp ij c bw))))"
    using Cons.prems
    by (simp_all add: bw config_step_production config_step_non_production
        distinct_keys_od_setitem)
  from Cons.IH [OF this] show ?case by simp
qed

lemma config_loop_no_write:
  assumes "\<forall>c \<in> set cs. \<not> truthy_bool (cfg_is_write c)"
  shows "write_info (fst (config_loop mt rp ij cs bw)) = write_info (fst bw)"
  using assms
proof (induction cs arbitrary: bw)
  case Nil
  show ?case by simp
next
  case (Cons c cs)
  obtain b w where bw: "bw = (b, w)" by (cases bw)
  from Cons.prems show ?case
    by (simp add: Cons.IH bw config_step_write_info)
qed

lemma config_loop_last_write:
  assumes "truthy_bool (cfg_is_write c)" "\<forall>c' \<in> set post. \<not> truthy_bool (cfg_is_write c')"
  shows "write_info (fst (config_loop mt rp ij (pre @ c # post) (b, w))) =
           Some (cfg_id c, entry_ledger mt rp ij c (next_ref w + 2 * length pre))"
proof -
  obtain b1 w1 where s1: "config_loop mt rp ij pre (b, w) = (b1, w1)"
    by (cases "config_loop mt rp ij pre (b, w)")
  have "next_ref w1 = next_ref w + 2 * length pre"
    using config_loop_next_ref [of mt rp ij pre "(b, w)"] by (simp add: s1)
  moreover have "write_info (fst (config_step mt rp ij c (b1, w1))) =
      Some (cfg_id c, entry_ledger mt rp ij c (next_ref w1))"
    using assms(1) by (simp add: config_step_write_info)
  ultimately show ?thesis
    by (simp add: config_loop_append s1 config_loop_no_write [OF assms(2)])
qed

subsection \<open>The cache\<close>

lemma provide_miss:
  assumes "select_manager_type (root_profile self) = Inr mt"
    and "inst self (map_of MANAGER_TYPES mt) = None"
  shows "provide lc st ij (self, w) =
     (case construct lc st ij (root_profile self) mt (map_of MANAGER_TYPES mt)
             (emit (LogInfo (create_msg mt)) w) of
        (Inl (ClassNotFoundError x), w2) \<Rightarrow>
          (Inl (InjectionError (unknown_type_msg mt)
                  (ClassNotFoundError x)), self, w2)
      | (Inl e, w2) \<Rightarrow> (Inl e, self, w2)
      | (Inr m, w2) \<Rightarrow> (Inr m, self\<lparr>inst := (inst self)(map_of MANAGER_TYPES mt \<mapsto> m)\<rparr>, w2))"
  using assms by (simp add: provide_def Let_def)

lemma provide_hit:
  assumes "select_manager_type (root_profile self) = Inr mt"
    and "inst self (map_of MANAGER_TYPES mt) = Some m"
  shows "provide lc st ij (self, w) = (Inr m, self, w)"
  using assms by (simp add: provide_def Let_def)

lemma provide_unsupported:
  assumes "select_manager_type (root_profile self) = Inl e"
  shows "provide lc st ij (self, w) = (Inl e, self, w)"
  using assms by (simp add: provide_def Let_def)

lemma provide_Inr_cached:
  assumes "provide lc st ij (self, w) = (Inr m, self', w')"
  shows "\<exists>mt. select_manager_type (root_profile self) = Inr mt \<and>
              root_profile self' = root_profile self \<and>
              inst self' (map_of MANAGER_TYPES mt) = Some m \<and>
              inst self' = (inst self)(map_of MANAGER_TYPES mt \<mapsto> m)"
proof (cases "select_manager_type (root_profile self)")
  case (Inl e)
  with assms show ?thesis by (simp add: provide_unsupported)
next
  case (Inr mt)
  show ?thesis
  proof (cases "inst self (map_of MANAGER_TYPES mt)")
    case None
    with Inr assms show ?thesis
      by (auto simp: provide_miss split: prod.splits sum.splits exn.splits)
  next
    case (Some m0)
    with Inr assms have "m0 = m" "self' = self" by (simp_all add: provide_hit)
    with Inr Some show ?thesis by (auto simp: fun_upd_idem)
  qed
qed

lemma provide_Inl_unchanged:
  assumes "provide lc st ij (self, w) = (Inl e, self', w')"
  shows "self' = self"
proof (cases "select_manager_type (root_profile self)")
  case (Inl e)
  with assms show ?thesis by (simp add: provide_unsupported)
next
  case (Inr mt)
  show ?thesis
  proof (cases "inst self (map_of MANAGER_TYPES mt)")
    case None
    with Inr assms show ?thesis
      by (auto simp: provide_miss split: prod.splits sum.splits exn.splits)
  next
    case (Some m0)
    with Inr assms show ?thesis by (simp add: provide_hit)
  qed
qed

subsection \<open>The fallback step\<close>

lemma basic_fallback_write_set:
  assumes "write_info b = Some wl" "base_ledger rp = Some l" "name (pool l) = Some n"
  shows "basic_fallback rp b w =
           (Inr (b\<lparr>production := od_setitem (production b) (Some (''startup::'' @ n)) l\<rparr>),
            emit InjectOrBaseLedger w)"
  using assms by (simp add: basic_fallback_def Let_def)

lemma askar_fallback_write_set:
  assumes "write_info b = Some wl" "base_ledger rp = Some l" "name (pool l) = Some n"
  shows "askar_fallback rp b w =
           (Inr (b\<lparr>production := od_setitem (production b) (Some (''startup::'' @ n)) l\<rparr>),
            emit InjectOrBaseLedger w)"
  using assms by (simp add: askar_fallback_def Let_def)

lemma basic_fallback_no_write:
  assumes "write_info b = None" "base_ledger rp = Some l" "name (pool l) = Some n"
  shows "basic_fallback rp b w =
           (Inr (b\<lparr>production :=
                     (Some (''startup::'' @ n), l) #
                     filter (\<lambda>p. fst p \<noteq> Some (''startup::'' @ n)) (production b),
                   write_info := Some (Some (''startup::'' @ n), l)\<rparr>),
            emit InjectOrBaseLedger w)"
  using assms
  by (simp add: basic_fallback_def od_move_to_end_def map_of_od_setitem filter_od_setitem Let_def)

lemma askar_fallback_no_write:
  assumes "write_info b = None" "base_ledger rp = Some l" "name (pool l) = Some n"
  shows "askar_fallback rp b w =
           (case map_of (non_production b) (Some (''startup::'' @ n)) of
              None \<Rightarrow> (Inl (KeyError (Some (''startup::'' @ n))), emit InjectOrBaseLedger w)
            | Some v \<Rightarrow>
                (Inr (b\<lparr>production := od_setitem (production b) (Some (''startup::'' @ n)) l,
                        non_production :=
                          (Some (''startup::'' @ n), v) #
                          filter (\<lambda>p. fst p \<noteq> Some (''startup::'' @ n)) (non_production b),
                        write_info := Some (Some (''startup::'' @ n), l)\<rparr>),
                 emit InjectOrBaseLedger w))"
  using assms
  by (simp add: askar_fallback_def od_move_to_end_def Let_def split: option.splits)

lemma fallback_Inr:
  assumes "(if mt = ''basic'' then basic_fallback rp b0 w else askar_fallback rp b0 w) = (Inr b, w')"
  shows "\<exists>l n. base_ledger rp = Some l \<and> name (pool l) = Some n \<and>
           fst ` set (production b) = insert (Some (''startup::'' @ n)) (fst ` set (production b0)) \<and>
           fst ` set (non_production b) = fst ` set (non_production b0) \<and>
           (distinct (keys (production b0)) \<longrightarrow> distinct (keys (production b))) \<and>
           (distinct (keys (non_production b0)) \<longrightarrow> distinct (keys (non_production b))) \<and>
           (write_info b0 = None \<and> mt \<noteq> ''basic'' \<longrightarrow>
              Some (''startup::'' @ n) \<in> fst ` set (non_production b0)) \<and>
           write_info b = (case write_info b0 of None \<Rightarrow> Some (Some (''startup::'' @ n), l) | Some wl \<Rightarrow> Some wl)"
proof -
  from assms obtain l where l: "base_ledger rp = Some l"
    by (cases "base_ledger rp") (auto simp: basic_fallback_def askar_fallback_def split: if_splits)
  from assms l obtain n where n: "name (pool l) = Some n"
    by (cases "name (pool l)") (auto simp: basic_fallback_def askar_fallback_def split: if_splits)
  let ?k = "Some (''startup::'' @ n)"
  show ?thesis
  proof (cases "write_info b0")
    case (Some wl)
    with assms l n have "b = b0\<lparr>production := od_setitem (production b0) ?k l\<rparr>"
      by (auto simp: basic_fallback_write_set askar_fallback_write_set split: if_splits)
    with l n Some show ?thesis
      by (simp add: set_keys_od_setitem distinct_keys_od_setitem)
  next
    case None
    show ?thesis
    proof (cases "mt = ''basic''")
      case True
      with assms l n None
      have b: "b = b0\<lparr>production := (?k, l) # filter (\<lambda>p. fst p \<noteq> ?k) (production b0),
                      write_info := Some (?k, l)\<rparr>"
        by (simp add: basic_fallback_no_write)
      have "distinct (keys (production b0)) \<Longrightarrow>
            distinct (keys (filter (\<lambda>p. fst p \<noteq> ?k) (production b0)))"
        by (simp add: distinct_map_filter)
      with b l n None True show ?thesis by auto
    next
      case False
      with assms l n None obtain v where v: "map_of (non_production b0) ?k = Some v"
        and b: "b = b0\<lparr>production := od_setitem (production b0) ?k l,
                       non_production := (?k, v) # filter (\<lambda>p. fst p \<noteq> ?k) (non_production b0),
                       write_info := Some (?k, l)\<rparr>"
        by (auto simp: askar_fallback_no_write split: option.splits)
      from v have in_np: "?k \<in> fst ` set (non_production b0)"
        by (metis map_of_eq_None_iff option.distinct(1))
      have "distinct (keys (non_production b0)) \<Longrightarrow>
            distinct (keys (filter (\<lambda>p. fst p \<noteq> ?k) (non_production b0)))"
        by (simp add: distinct_map_filter)
      with b l n None False in_np show ?thesis
        by (auto simp: set_keys_od_setitem distinct_keys_od_setitem)
    qed
  qed
qed

subsection \<open>The construction\<close>

lemma config_loop_write_info_None:
  "write_info (fst (config_loop mt rp ij cs bw)) = None \<longleftrightarrow>
     write_info (fst bw) = None \<and> (\<forall>c \<in> set cs. \<not> truthy_bool (cfg_is_write c))"
proof (induction cs arbitrary: bw)
  case Nil
  show ?case by simp
next
  case (Cons c cs)
  obtain b w where bw: "bw = (b, w)" by (cases bw)
  show ?case by (auto simp: Cons.IH bw config_step_write_info)
qed

lemma build_ledgers_Inr:
  assumes "build_ledgers st ij rp mt w = (Inr b, w')"
  shows "\<exists>cs. ledger_ledger_config_list st = Some cs \<and>
           (if truthy_str (ledger_genesis_transactions st)
            then (if mt = ''basic''
                  then basic_fallback rp
                         (fst (config_loop mt rp ij cs (empty_build, emit (GetValue ''ledger.ledger_config_list'') w)))
                         (emit (GetValue ''ledger.genesis_transactions'')
                            (snd (config_loop mt rp ij cs (empty_build, emit (GetValue ''ledger.ledger_config_list'') w))))
                  else askar_fallback rp
                         (fst (config_loop mt rp ij cs (empty_build, emit (GetValue ''ledger.ledger_config_list'') w)))
                         (emit (GetValue ''ledger.genesis_transactions'')
                            (snd (config_loop mt rp ij cs (empty_build, emit (GetValue ''ledger.ledger_config_list'') w)))))
                 = (Inr b, w')
            else b = fst (config_loop mt rp ij cs (empty_build, emit (GetValue ''ledger.ledger_config_list'') w)))"
  using assms
  by (cases "ledger_ledger_config_list st")
     (auto simp: build_ledgers_def Let_def split_def split: if_splits)

lemma build_ledgers_keys:
  assumes "build_ledgers st ij rp mt w = (Inr b, w')"
    and "ledger_ledger_config_list st = Some cs"
  shows "fst ` set (production b) =
           cfg_id ` {c \<in> set cs. truthy_bool (cfg_is_production c)} \<union> injected_ids st rp"
    and "fst ` set (non_production b) =
           cfg_id ` {c \<in> set cs. \<not> truthy_bool (cfg_is_production c)}"
    and "distinct (keys (production b))"
    and "distinct (keys (non_production b))"
proof -
  let ?s = "config_loop mt rp ij cs (empty_build, emit (GetValue ''ledger.ledger_config_list'') w)"
  have p0: "fst ` set (production (fst ?s)) = cfg_id ` {c \<in> set cs. truthy_bool (cfg_is_production c)}"
    using config_loop_production_keys [of mt rp ij cs "(empty_build, emit (GetValue ''ledger.ledger_config_list'') w)"]
    by (simp add: empty_build_def)
  have n0: "fst ` set (non_production (fst ?s)) =
      cfg_id ` {c \<in> set cs. \<not> truthy_bool (cfg_is_production c)}"
    using config_loop_non_production_keys [of mt rp ij cs "(empty_build, emit (GetValue ''ledger.ledger_config_list'') w)"]
    by (simp add: empty_build_def)
  have d0: "distinct (keys (production (fst ?s))) \<and> distinct (keys (non_production (fst ?s)))"
    by (rule config_loop_distinct) (simp_all add: empty_build_def)
  have "fst ` set (production b) =
           cfg_id ` {c \<in> set cs. truthy_bool (cfg_is_production c)} \<union> injected_ids st rp \<and>
        fst ` set (non_production b) =
           cfg_id ` {c \<in> set cs. \<not> truthy_bool (cfg_is_production c)} \<and>
        distinct (keys (production b)) \<and> distinct (keys (non_production b))"
  proof (cases "truthy_str (ledger_genesis_transactions st)")
    case False
    with build_ledgers_Inr [OF assms(1)] assms(2) have "b = fst ?s" by simp
    with p0 n0 d0 False show ?thesis by (simp add: injected_ids_def)
  next
    case True
    with build_ledgers_Inr [OF assms(1)] assms(2)
    have "(if mt = ''basic''
           then basic_fallback rp (fst ?s) (emit (GetValue ''ledger.genesis_transactions'') (snd ?s))
           else askar_fallback rp (fst ?s) (emit (GetValue ''ledger.genesis_transactions'') (snd ?s)))
          = (Inr b, w')"
      by simp
    from fallback_Inr [OF this] obtain l n where
      "base_ledger rp = Some l" "name (pool l) = Some n"
      "fst ` set (production b) = insert (Some (''startup::'' @ n)) (fst ` set (production (fst ?s)))"
      "fst ` set (non_production b) = fst ` set (non_production (fst ?s))"
      "distinct (keys (production (fst ?s))) \<longrightarrow> distinct (keys (production b))"
      "distinct (keys (non_production (fst ?s))) \<longrightarrow> distinct (keys (non_production b))"
      by blast
    with p0 n0 d0 True show ?thesis by (simp add: injected_ids_def)
  qed
  then show "fst ` set (production b) =
           cfg_id ` {c \<in> set cs. truthy_bool (cfg_is_production c)} \<union> injected_ids st rp"
    and "fst ` set (non_production b) =
           cfg_id ` {c \<in> set cs. \<not> truthy_bool (cfg_is_production c)}"
    and "distinct (keys (production b))"
    and "distinct (keys (non_production b))" by simp_all
qed

lemma build_ledgers_succeeds:
  assumes "ledger_ledger_config_list st = Some cs"
    and "truthy_str (ledger_genesis_transactions st) \<longrightarrow>
           (\<exists>l n. base_ledger rp = Some l \<and> name (pool l) = Some n) \<and>
           (mt = ''basic'' \<or> (\<exists>c \<in> set cs. truthy_bool (cfg_is_write c)))"
  shows "\<exists>b w'. build_ledgers st ij rp mt w = (Inr b, w')"
proof (cases "truthy_str (ledger_genesis_transactions st)")
  case False
  with assms(1) show ?thesis by (simp add: build_ledgers_def Let_def split_def)
next
  case True
  let ?s = "config_loop mt rp ij cs (empty_build, emit (GetValue ''ledger.ledger_config_list'') w)"
  let ?w = "emit (GetValue ''ledger.genesis_transactions'') (snd ?s)"
  from True assms(2) obtain l n where ln: "base_ledger rp = Some l" "name (pool l) = Some n"
    and v: "mt = ''basic'' \<or> (\<exists>c \<in> set cs. truthy_bool (cfg_is_write c))"
    by blast
  have eq: "build_ledgers st ij rp mt w =
      (if mt = ''basic'' then basic_fallback rp (fst ?s) ?w else askar_fallback rp (fst ?s) ?w)"
    using True assms(1) by (simp add: build_ledgers_def Let_def split_def)
  show ?thesis
  proof (cases "mt = ''basic''")
    case True
    then have b: "build_ledgers st ij rp mt w = basic_fallback rp (fst ?s) ?w"
      unfolding eq by (rule if_P)
    show ?thesis
    proof (cases "write_info (fst ?s)")
      case (Some wl)
      show ?thesis unfolding b basic_fallback_write_set [OF Some ln] by blast
    next
      case None
      show ?thesis unfolding b basic_fallback_no_write [OF None ln] by blast
    qed
  next
    case False
    then have b: "build_ledgers st ij rp mt w = askar_fallback rp (fst ?s) ?w"
      unfolding eq by (rule if_not_P)
    from False v have "\<exists>c \<in> set cs. truthy_bool (cfg_is_write c)" by blast
    then have "write_info (fst ?s) \<noteq> None"
      by (simp add: config_loop_write_info_None)
    then obtain wl where wl: "write_info (fst ?s) = Some wl" by blast
    show ?thesis unfolding b askar_fallback_write_set [OF wl ln] by blast
  qed
qed

lemma construct_Inr:
  assumes "construct lc st ij rp mt mc w = (Inr m, w')"
  shows "\<exists>b w1. build_ledgers st ij rp mt w = (Inr b, w1) \<and> lc mc = None \<and>
           m = \<lparr>manager_ref = next_ref w1, manager_cls = mc, manager_profile = profile_ref rp,
                production_ledgers = production b, non_production_ledgers = non_production b,
                write_ledger_info = write_info b\<rparr>"
  using assms
  by (auto simp: construct_def new_manager_def alloc_def emit_def Let_def
      split: prod.splits sum.splits option.splits)

lemma construct_succeeds:
  assumes "build_ledgers st ij rp mt w = (Inr b, w1)" "lc mc = None"
  shows "construct lc st ij rp mt mc w =
           (Inr \<lparr>manager_ref = next_ref w1, manager_cls = mc, manager_profile = profile_ref rp,
                 production_ledgers = production b, non_production_ledgers = non_production b,
                 write_ledger_info = write_info b\<rparr>,
            emit (NewManager (next_ref w1))
              ((emit (LoadClass mc) w1)\<lparr>next_ref := Suc (next_ref w1)\<rparr>))"
  using assms by (simp add: construct_def new_manager_def alloc_def emit_def Let_def)

lemma construct_class_not_found:
  assumes "build_ledgers st ij rp mt w = (Inr b, w1)" "lc mc = Some e"
  shows "construct lc st ij rp mt mc w = (Inl e, emit (LoadClass mc) w1)"
  using assms by (simp add: construct_def new_manager_def Let_def)

lemma provide_new:
  assumes "select_manager_type (root_profile self) = Inr mt"
    and "inst self (map_of MANAGER_TYPES mt) = None"
    and "provide lc st ij (self, w) = (Inr m, self', w')"
  shows "construct lc st ij (root_profile self) mt (map_of MANAGER_TYPES mt)
           (emit (LogInfo (create_msg mt)) w) = (Inr m, w')"
  using assms(3) unfolding provide_miss [OF assms(1,2)]
  by (auto split: prod.splits sum.splits exn.splits)

subsection \<open>The order of the partitions in the basic variant\<close>

text \<open>
  With pairwise different ids, none the synthetic id, each partition of the basic
  variant has the ids of its entries in the order of the list; the synthetic id stands
  first in the production partition when the fallback becomes the write ledger, and
  last when an entry is.
\<close>

lemma basic_partition_order:
  assumes "build_ledgers st ij rp ''basic'' w = (Inr b, w')"
    and "ledger_ledger_config_list st = Some cs"
    and "distinct (map cfg_id cs)"
    and "set (map cfg_id cs) \<inter> injected_ids st rp = {}"
  shows "keys (non_production b) =
           map cfg_id (filter (\<lambda>c. \<not> truthy_bool (cfg_is_production c)) cs)"
    and "\<not> truthy_str (ledger_genesis_transactions st) \<Longrightarrow>
           keys (production b) = map cfg_id (filter (\<lambda>c. truthy_bool (cfg_is_production c)) cs)"
    and "truthy_str (ledger_genesis_transactions st) \<Longrightarrow>
           \<exists>l n. base_ledger rp = Some l \<and> name (pool l) = Some n \<and>
             keys (production b) =
               (if \<exists>c \<in> set cs. truthy_bool (cfg_is_write c)
                then map cfg_id (filter (\<lambda>c. truthy_bool (cfg_is_production c)) cs) @
                     [Some (''startup::'' @ n)]
                else Some (''startup::'' @ n) #
                     map cfg_id (filter (\<lambda>c. truthy_bool (cfg_is_production c)) cs)) \<and>
             write_info b =
               (if \<exists>c \<in> set cs. truthy_bool (cfg_is_write c)
                then write_info (fst (config_loop ''basic'' rp ij cs
                       (empty_build, emit (GetValue ''ledger.ledger_config_list'') w)))
                else Some (Some (''startup::'' @ n), l))"
proof -
  let ?P = "\<lambda>c. truthy_bool (cfg_is_production c)"
  let ?s = "config_loop ''basic'' rp ij cs (empty_build, emit (GetValue ''ledger.ledger_config_list'') w)"
  have d: "distinct (map cfg_id (filter ?P cs))" "distinct (map cfg_id (filter (\<lambda>c. \<not> ?P c) cs))"
    using assms(3) by (simp_all add: distinct_map_filter)
  have p0: "keys (production (fst ?s)) = map cfg_id (filter ?P cs)"
    using config_loop_production_order [of "(empty_build, emit (GetValue ''ledger.ledger_config_list'') w)" cs "''basic''" rp ij] d
    by (simp add: empty_build_def)
  have n0: "keys (non_production (fst ?s)) = map cfg_id (filter (\<lambda>c. \<not> ?P c) cs)"
    using config_loop_non_production_order [of "(empty_build, emit (GetValue ''ledger.ledger_config_list'') w)" cs "''basic''" rp ij] d
    by (simp add: empty_build_def)
  have w0: "write_info (fst ?s) = None \<longleftrightarrow> \<not> (\<exists>c \<in> set cs. truthy_bool (cfg_is_write c))"
    by (simp add: config_loop_write_info_None empty_build_def)
  note bl = build_ledgers_Inr [OF assms(1)]
  {
    assume g: "\<not> truthy_str (ledger_genesis_transactions st)"
    with bl assms(2) have "b = fst ?s" by simp
    with p0 n0 have "keys (production b) = map cfg_id (filter ?P cs)"
      "keys (non_production b) = map cfg_id (filter (\<lambda>c. \<not> ?P c) cs)" by simp_all
  }
  note falsy = this
  {
    assume g: "truthy_str (ledger_genesis_transactions st)"
    with bl assms(2) have f: "basic_fallback rp (fst ?s)
        (emit (GetValue ''ledger.genesis_transactions'') (snd ?s)) = (Inr b, w')"
      by simp
    then obtain l where l: "base_ledger rp = Some l"
      by (cases "base_ledger rp") (auto simp: basic_fallback_def)
    from f l obtain n where n: "name (pool l) = Some n"
      by (cases "name (pool l)") (auto simp: basic_fallback_def)
    let ?k = "Some (''startup::'' @ n)"
    from assms(4) g l n have fresh: "?k \<notin> set (map cfg_id cs)"
      by (simp add: injected_ids_def)
    then have fresh_p: "?k \<notin> set (keys (production (fst ?s)))"
      unfolding p0 by auto
    have "keys (non_production b) = map cfg_id (filter (\<lambda>c. \<not> ?P c) cs) \<and>
          keys (production b) =
               (if \<exists>c \<in> set cs. truthy_bool (cfg_is_write c)
                then map cfg_id (filter ?P cs) @ [?k]
                else ?k # map cfg_id (filter ?P cs)) \<and>
          write_info b =
               (if \<exists>c \<in> set cs. truthy_bool (cfg_is_write c) then write_info (fst ?s)
                else Some (?k, l))"
    proof (cases "write_info (fst ?s)")
      case (Some wl)
      with w0 have ex: "\<exists>c \<in> set cs. truthy_bool (cfg_is_write c)" by simp
      from f have "b = (fst ?s)\<lparr>production := od_setitem (production (fst ?s)) ?k l\<rparr>"
        unfolding basic_fallback_write_set [OF Some l n] by simp
      then have "keys (production b) = keys (production (fst ?s)) @ [?k]"
        "non_production b = non_production (fst ?s)" "write_info b = write_info (fst ?s)"
        using fresh_p by (simp_all add: keys_od_setitem)
      with ex p0 n0 show ?thesis by simp
    next
      case None
      with w0 have nex: "\<not> (\<exists>c \<in> set cs. truthy_bool (cfg_is_write c))" by simp
      from f have b: "b = (fst ?s)\<lparr>production := (?k, l) # filter (\<lambda>p. fst p \<noteq> ?k) (production (fst ?s)),
                      write_info := Some (?k, l)\<rparr>"
        unfolding basic_fallback_no_write [OF None l n] by simp
      have "filter (\<lambda>p. fst p \<noteq> ?k) (production (fst ?s)) = production (fst ?s)"
        using fresh_p by (force simp: filter_id_conv)
      with b have "keys (production b) = ?k # keys (production (fst ?s))"
        "non_production b = non_production (fst ?s)" "write_info b = Some (?k, l)"
        by simp_all
      with nex p0 n0 show ?thesis by simp
    qed
    with l n have "keys (non_production b) = map cfg_id (filter (\<lambda>c. \<not> ?P c) cs)"
      "\<exists>l n. base_ledger rp = Some l \<and> name (pool l) = Some n \<and>
             keys (production b) =
               (if \<exists>c \<in> set cs. truthy_bool (cfg_is_write c)
                then map cfg_id (filter ?P cs) @ [Some (''startup::'' @ n)]
                else Some (''startup::'' @ n) # map cfg_id (filter ?P cs)) \<and>
             write_info b =
               (if \<exists>c \<in> set cs. truthy_bool (cfg_is_write c) then write_info (fst ?s)
                else Some (Some (''startup::'' @ n), l))"
      by auto
  }
  note truthy = this
  show "keys (non_production b) = map cfg_id (filter (\<lambda>c. \<not> ?P c) cs)"
    using falsy(2) truthy(1) by blast
  show "\<not> truthy_str (ledger_genesis_transactions st) \<Longrightarrow>
           keys (production b) = map cfg_id (filter ?P cs)"
    by (rule falsy(1))
  show "truthy_str (ledger_genesis_transactions st) \<Longrightarrow>
           \<exists>l n. base_ledger rp = Some l \<and> name (pool l) = Some n \<and>
             keys (production b) =
               (if \<exists>c \<in> set cs. truthy_bool (cfg_is_write c)
                then map cfg_id (filter ?P cs) @ [Some (''startup::'' @ n)]
                else Some (''startup::'' @ n) # map cfg_id (filter ?P cs)) \<and>
             write_info b =
               (if \<exists>c \<in> set cs. truthy_bool (cfg_is_write c) then write_info (fst ?s)
                else Some (Some (''startup::'' @ n), l))"
    by (rule truthy(2))
qed

subsection \<open>Evaluation on concrete inputs\<close>

lemmas eval_defs =
  provide_def select_manager_type_def MANAGER_TYPES_def construct_def new_manager_def
  build_ledgers_def config_step_def new_pool_def new_ledger_def alloc_def emit_def
  basic_fallback_def askar_fallback_def od_move_to_end_def empty_build_def
  truthy_bool_def truthy_str_def Let_def
  init_def root_of_def main_ledger_def world0_def no_cache_def settings_of_def entry_def
  blank_entry_def load_ok_def load_missing_def entry_ledger_def injected_ids_def
  basic_manager_path_def askar_manager_path_def
  create_msg_def unknown_type_msg_def

lemma basic_scenario:
  "fst (provide load_ok (settings_of [entry ''L1'' True False] True) no_cache
     (init (root_of IndySdkProfile), world0)) =
   Inr \<lparr>manager_ref = 5, manager_cls = Some basic_manager_path, manager_profile = 2,
        production_ledgers =
          [(Some ''startup::main'', main_ledger),
           (Some ''L1'', entry_ledger ''basic'' (root_of IndySdkProfile) no_cache
                          (entry ''L1'' True False) 3)],
        non_production_ledgers = [],
        write_ledger_info = Some (Some ''startup::main'', main_ledger)\<rparr>"
  by (simp add: eval_defs)

subsection \<open>Claims\<close>



text \<open>
  C2. The scenario of the claim on the askar-profile variant: one production entry
  \<^verbatim>\<open>L1\<close> that is not the write ledger, the genesis setting set, a fallback ledger with
  pool name \<^verbatim>\<open>main\<close>. The call raises \<^verbatim>\<open>KeyError\<close> from \<^verbatim>\<open>move_to_end\<close>, after the
  ledger of \<^verbatim>\<open>L1\<close> has been built, and caches nothing. On the basic variant the call
  returns the manager the claim describes (\<open>basic_scenario\<close>), and the partitions have
  the order the claim states (\<open>basic_partition_order\<close>).
\<close>

theorem askar_scenario_raises:
  "provide load_ok (settings_of [entry ''L1'' True False] True) no_cache
     (init (root_of AskarProfile), world0) =
   (Inl (KeyError (Some ''startup::main'')), init (root_of AskarProfile),
    \<lparr>next_ref = 5,
     events = [LogInfo (create_msg ''askar-profile''),
               GetValue ''ledger.ledger_config_list'', InjectOrBaseCache, NewPool 3, NewLedger 4,
               GetValue ''ledger.genesis_transactions'', InjectOrBaseLedger]\<rparr>)"
  by (simp add: eval_defs)

text \<open>
  C3. A second call of \<^verbatim>\<open>provide\<close> on the same provider, after a call that returned
  a manager, returns that manager (the same object: the same reference and fields), for
  any class loader, settings and injector, and leaves the provider and the world as
  they are: no setting is read and no object is constructed.
\<close>

theorem provide_memoized:
  assumes "provide lc st ij (self, w) = (Inr m, self', w')"
  shows "provide lc2 st2 ij2 (self', w2) = (Inr m, self', w2)"
proof -
  from provide_Inr_cached [OF assms] obtain mt where
    "select_manager_type (root_profile self') = Inr mt"
    "inst self' (map_of MANAGER_TYPES mt) = Some m" by auto
  then show ?thesis by (rule provide_hit)
qed

theorem provide_memoized_witness:
  "\<exists>m. fst (provide load_ok (settings_of [entry ''L1'' True False] True) no_cache
              (init (root_of IndySdkProfile), world0)) = Inr m \<and>
       manager_ref m = 5 \<and>
       provide load_missing (settings_of [] False) \<lparr>base_cache = Some 9\<rparr>
         (snd (provide load_ok (settings_of [entry ''L1'' True False] True) no_cache
                (init (root_of IndySdkProfile), world0))) =
       (Inr m, snd (provide load_ok (settings_of [entry ''L1'' True False] True) no_cache
                (init (root_of IndySdkProfile), world0)))"
proof -
  let ?r = "provide load_ok (settings_of [entry ''L1'' True False] True) no_cache
              (init (root_of IndySdkProfile), world0)"
  have "map_sum id manager_ref (fst ?r) = Inr 5" by code_simp
  then obtain m where m: "fst ?r = Inr m" "manager_ref m = 5"
    by (cases "fst ?r") auto
  then have "?r = (Inr m, fst (snd ?r), snd (snd ?r))"
    by (metis prod.collapse)
  from provide_memoized [OF this, of load_missing "settings_of [] False" "\<lparr>base_cache = Some 9\<rparr>" "snd (snd ?r)"] m
  show ?thesis by simp
qed

text \<open>
  C4. When the cache has no manager for the variant and \<^verbatim>\<open>provide\<close> returns one, for
  entries with pairwise different ids, none of them the synthetic id: the keys of the two
  partitions together are the ids of the entries and, when the fallback is injected, the
  synthetic id; no key is in both partitions, and none occurs twice in one.
\<close>

theorem partition_keys:
  assumes "select_manager_type (root_profile self) = Inr mt"
    and "inst self (map_of MANAGER_TYPES mt) = None"
    and "provide lc st ij (self, w) = (Inr m, self', w')"
    and "ledger_ledger_config_list st = Some cs"
    and "distinct (map cfg_id cs)"
    and "set (map cfg_id cs) \<inter> injected_ids st (root_profile self) = {}"
  shows "set (keys (production_ledgers m)) \<union> set (keys (non_production_ledgers m)) =
           set (map cfg_id cs) \<union> injected_ids st (root_profile self) \<and>
         set (keys (production_ledgers m)) \<inter> set (keys (non_production_ledgers m)) = {} \<and>
         distinct (keys (production_ledgers m)) \<and> distinct (keys (non_production_ledgers m))"
proof -
  from construct_Inr [OF provide_new [OF assms(1-3)]] obtain b w1 where
    b: "build_ledgers st ij (root_profile self) mt
          (emit (LogInfo (create_msg mt)) w) = (Inr b, w1)"
    and m: "production_ledgers m = production b" "non_production_ledgers m = non_production b"
    by auto
  note k = build_ledgers_keys [OF b assms(4)]
  have inj: "inj_on cfg_id (set cs)"
    using assms(5) by (simp add: distinct_map)
  have "fst ` set (production b) \<union> fst ` set (non_production b) =
      cfg_id ` set cs \<union> injected_ids st (root_profile self)"
    unfolding k(1,2) by auto
  moreover have "fst ` set (production b) \<inter> fst ` set (non_production b) = {}"
  proof -
    have "cfg_id ` {c \<in> set cs. truthy_bool (cfg_is_production c)} \<inter>
          cfg_id ` {c \<in> set cs. \<not> truthy_bool (cfg_is_production c)} = {}"
      using inj by (auto dest: inj_onD)
    moreover have "injected_ids st (root_profile self) \<inter>
          cfg_id ` {c \<in> set cs. \<not> truthy_bool (cfg_is_production c)} = {}"
      using assms(6) by auto
    ultimately show ?thesis unfolding k(1,2) by blast
  qed
  ultimately show ?thesis using k(3,4) by (simp add: m)
qed

theorem partition_keys_witness:
  "\<exists>m. fst (provide load_ok (settings_of [entry ''L1'' True False, entry ''L2'' False True] True)
              no_cache (init (root_of IndySdkProfile), world0)) = Inr m \<and>
       set (keys (production_ledgers m)) \<union> set (keys (non_production_ledgers m)) =
         {Some ''L1'', Some ''L2'', Some ''startup::main''} \<and>
       set (keys (production_ledgers m)) \<inter> set (keys (non_production_ledgers m)) = {} \<and>
       distinct (keys (production_ledgers m)) \<and> distinct (keys (non_production_ledgers m))"
proof -
  let ?cs = "[entry ''L1'' True False, entry ''L2'' False True]"
  let ?st = "settings_of ?cs True"
  let ?self = "init (root_of IndySdkProfile)"
  let ?r = "provide load_ok ?st no_cache (?self, world0)"
  have "\<not> isl (fst ?r)" by (simp add: eval_defs)
  then obtain m where m: "fst ?r = Inr m" by (cases "fst ?r") auto
  then have r: "?r = (Inr m, fst (snd ?r), snd (snd ?r))" by (metis prod.collapse)
  have h1: "select_manager_type (root_profile ?self) = Inr ''basic''"
    by (simp add: eval_defs)
  have h2: "inst ?self (map_of MANAGER_TYPES ''basic'') = None"
    by (simp add: init_def)
  have h4: "ledger_ledger_config_list ?st = Some ?cs"
    by (simp add: settings_of_def)
  have h5: "distinct (map cfg_id ?cs)"
    by (simp add: entry_def)
  have h6: "set (map cfg_id ?cs) \<inter> injected_ids ?st (root_profile ?self) = {}"
    by (simp add: eval_defs)
  have i: "set (map cfg_id ?cs) \<union> injected_ids ?st (root_profile ?self) =
      {Some ''L1'', Some ''L2'', Some ''startup::main''}"
    by (auto simp: eval_defs)
  from partition_keys [OF h1 h2 r h4 h5 h6] m show ?thesis unfolding i by blast
qed

text \<open>
  C5. The write ledger of a manager is an option, so there is at most one. When the
  cache has no manager for the variant and \<^verbatim>\<open>provide\<close> returns one, and some entry has
  a truthy \<^verbatim>\<open>is_write\<close>, the write ledger is the id of the last such entry and the ledger
  built for it (the entry after \<open>pre\<close> gets the references \<open>next_ref w + 2 * length pre\<close>
  and the next), whatever the genesis setting: the fallback does not replace it.
\<close>

theorem write_ledger_last_wins:
  assumes "select_manager_type (root_profile self) = Inr mt"
    and "inst self (map_of MANAGER_TYPES mt) = None"
    and "provide lc st ij (self, w) = (Inr m, self', w')"
    and "ledger_ledger_config_list st = Some (pre @ c # post)"
    and "truthy_bool (cfg_is_write c)"
    and "\<forall>c' \<in> set post. \<not> truthy_bool (cfg_is_write c')"
  shows "write_ledger_info m =
           Some (cfg_id c, entry_ledger mt (root_profile self) ij c (next_ref w + 2 * length pre))"
proof -
  let ?rp = "root_profile self"
  let ?w0 = "emit (LogInfo (create_msg mt)) w"
  let ?s = "config_loop mt ?rp ij (pre @ c # post)
              (empty_build, emit (GetValue ''ledger.ledger_config_list'') ?w0)"
  from construct_Inr [OF provide_new [OF assms(1-3)]] obtain b w1 where
    b: "build_ledgers st ij ?rp mt ?w0 = (Inr b, w1)"
    and m: "write_ledger_info m = write_info b"
    by auto
  have "next_ref (emit (GetValue ''ledger.ledger_config_list'') ?w0) = next_ref w"
    by (simp add: emit_def)
  with config_loop_last_write [OF assms(5,6), of mt ?rp ij pre empty_build
      "emit (GetValue ''ledger.ledger_config_list'') ?w0"]
  have s: "write_info (fst ?s) =
      Some (cfg_id c, entry_ledger mt ?rp ij c (next_ref w + 2 * length pre))"
    by simp
  show ?thesis
  proof (cases "truthy_str (ledger_genesis_transactions st)")
    case False
    with build_ledgers_Inr [OF b] assms(4) have "b = fst ?s" by simp
    with s m show ?thesis by simp
  next
    case True
    with build_ledgers_Inr [OF b] assms(4)
    have "(if mt = ''basic''
           then basic_fallback ?rp (fst ?s) (emit (GetValue ''ledger.genesis_transactions'') (snd ?s))
           else askar_fallback ?rp (fst ?s) (emit (GetValue ''ledger.genesis_transactions'') (snd ?s)))
          = (Inr b, w1)"
      by simp
    from fallback_Inr [OF this] s have "write_info b = write_info (fst ?s)" by auto
    with s m show ?thesis by simp
  qed
qed

theorem write_ledger_last_wins_witness:
  "\<exists>m. fst (provide load_ok
              (settings_of [entry ''A'' True True, entry ''B'' False True, entry ''C'' True False] True)
              no_cache (init (root_of AskarProfile), world0)) = Inr m \<and>
       write_ledger_info m =
         Some (Some ''B'', entry_ledger ''askar-profile'' (root_of AskarProfile) no_cache
                            (entry ''B'' False True) 5)"
proof -
  let ?st = "settings_of [entry ''A'' True True, entry ''B'' False True, entry ''C'' True False] True"
  let ?self = "init (root_of AskarProfile)"
  let ?r = "provide load_ok ?st no_cache (?self, world0)"
  have "\<not> isl (fst ?r)" by (simp add: eval_defs)
  then obtain m where m: "fst ?r = Inr m" by (cases "fst ?r") auto
  then have r: "?r = (Inr m, fst (snd ?r), snd (snd ?r))" by (metis prod.collapse)
  have h1: "select_manager_type (root_profile ?self) = Inr ''askar-profile''"
    by (simp add: eval_defs)
  have h2: "inst ?self (map_of MANAGER_TYPES ''askar-profile'') = None"
    by (simp add: init_def)
  have h4: "ledger_ledger_config_list ?st =
      Some ([entry ''A'' True True] @ entry ''B'' False True # [entry ''C'' True False])"
    by (simp add: settings_of_def)
  have h5: "truthy_bool (cfg_is_write (entry ''B'' False True))"
    by (simp add: entry_def truthy_bool_def)
  have h6: "\<forall>c' \<in> set [entry ''C'' True False]. \<not> truthy_bool (cfg_is_write c')"
    by (simp add: entry_def truthy_bool_def)
  have "root_profile ?self = root_of AskarProfile" "next_ref world0 + 2 * length [entry ''A'' True True] = 5"
    by (simp_all add: init_def world0_def)
  with write_ledger_last_wins [OF h1 h2 r h4 h5 h6] m show ?thesis
    by (simp add: entry_def)
qed

text \<open>
  C6. With a root profile of neither recognised class, \<^verbatim>\<open>provide\<close> raises
  \<^verbatim>\<open>MultipleLedgerManagerError\<close>; the cache and the world are unchanged, so no setting
  has been read and no object constructed.
\<close>

theorem unsupported_profile_fails:
  assumes "kind (root_profile self) = OtherProfile"
  shows "provide lc st ij (self, w) =
           (Inl (MultipleLedgerManagerError unsupported_profile_msg), self, w)"
  using assms by (simp add: provide_unsupported select_manager_type_def)

theorem unsupported_profile_fails_witness:
  "provide load_ok (settings_of [entry ''L1'' True True] True) no_cache
       (init (root_of OtherProfile), world0) =
     (Inl (MultipleLedgerManagerError unsupported_profile_msg), init (root_of OtherProfile), world0)"
  using unsupported_profile_fails [of "init (root_of OtherProfile)"]
  by (simp add: init_def root_of_def)

text \<open>
  C7, as the claim states it, fails: the error of an unrecognised root profile is a
  \<^verbatim>\<open>MultipleLedgerManagerError\<close>, the error of a manager class that is not found is an
  \<^verbatim>\<open>InjectionError\<close>, another class.
\<close>

theorem error_kinds_differ:
  "fst (provide load_ok (settings_of [] False) no_cache (init (root_of OtherProfile), world0)) =
     Inl (MultipleLedgerManagerError unsupported_profile_msg) \<and>
   fst (provide load_missing (settings_of [] False) no_cache (init (root_of IndySdkProfile), world0)) =
     Inl (InjectionError (unknown_type_msg ''basic'')
            (ClassNotFoundError basic_manager_path)) \<and>
   class_of (MultipleLedgerManagerError unsupported_profile_msg) \<noteq>
     class_of (InjectionError (unknown_type_msg ''basic'')
            (ClassNotFoundError basic_manager_path))"
  by (simp add: eval_defs)

text \<open>
  C7, amended. No failure is recovered, and there are several kinds: an unrecognised
  root profile raises \<^verbatim>\<open>MultipleLedgerManagerError\<close>; a \<^verbatim>\<open>ClassNotFoundError\<close> of the
  class loader is wrapped in an \<^verbatim>\<open>InjectionError\<close>, a different class; an exception of
  any other class raised during the construction reaches the caller as it is.
\<close>

theorem provide_error_kinds:
  "(kind (root_profile self) = OtherProfile \<longrightarrow>
      fst (provide lc st ij (self, w)) = Inl (MultipleLedgerManagerError unsupported_profile_msg)) \<and>
   (select_manager_type (root_profile self) = Inr mt \<and>
    inst self (map_of MANAGER_TYPES mt) = None \<and>
    fst (build_ledgers st ij (root_profile self) mt
           (emit (LogInfo (create_msg mt)) w)) = Inr b \<and>
    lc (map_of MANAGER_TYPES mt) = Some (ClassNotFoundError x) \<longrightarrow>
      fst (provide lc st ij (self, w)) =
        Inl (InjectionError (unknown_type_msg mt)
               (ClassNotFoundError x))) \<and>
   (select_manager_type (root_profile self) = Inr mt \<and>
    inst self (map_of MANAGER_TYPES mt) = None \<and>
    fst (construct lc st ij (root_profile self) mt (map_of MANAGER_TYPES mt)
           (emit (LogInfo (create_msg mt)) w)) = Inl e \<and>
    class_of e \<noteq> CClassNotFoundError \<longrightarrow>
      fst (provide lc st ij (self, w)) = Inl e) \<and>
   class_of (MultipleLedgerManagerError unsupported_profile_msg) \<noteq>
     class_of (InjectionError (unknown_type_msg mt)
                 (ClassNotFoundError x))"
proof (intro conjI impI)
  assume "kind (root_profile self) = OtherProfile"
  then show "fst (provide lc st ij (self, w)) =
      Inl (MultipleLedgerManagerError unsupported_profile_msg)"
    by (simp add: provide_unsupported select_manager_type_def)
next
  assume a: "select_manager_type (root_profile self) = Inr mt \<and>
    inst self (map_of MANAGER_TYPES mt) = None \<and>
    fst (build_ledgers st ij (root_profile self) mt
           (emit (LogInfo (create_msg mt)) w)) = Inr b \<and>
    lc (map_of MANAGER_TYPES mt) = Some (ClassNotFoundError x)"
  then obtain w1 where "build_ledgers st ij (root_profile self) mt
           (emit (LogInfo (create_msg mt)) w) = (Inr b, w1)"
    by (metis prod.collapse)
  with a show "fst (provide lc st ij (self, w)) =
        Inl (InjectionError (unknown_type_msg mt)
               (ClassNotFoundError x))"
    by (simp add: provide_miss construct_class_not_found)
next
  assume a: "select_manager_type (root_profile self) = Inr mt \<and>
    inst self (map_of MANAGER_TYPES mt) = None \<and>
    fst (construct lc st ij (root_profile self) mt (map_of MANAGER_TYPES mt)
           (emit (LogInfo (create_msg mt)) w)) = Inl e \<and>
    class_of e \<noteq> CClassNotFoundError"
  then obtain w1 where "construct lc st ij (root_profile self) mt (map_of MANAGER_TYPES mt)
           (emit (LogInfo (create_msg mt)) w) = (Inl e, w1)"
    by (metis prod.collapse)
  with a show "fst (provide lc st ij (self, w)) = Inl e"
    by (cases e) (simp_all add: provide_miss)
next
  show "class_of (MultipleLedgerManagerError unsupported_profile_msg) \<noteq>
     class_of (InjectionError (unknown_type_msg mt)
                 (ClassNotFoundError x))"
    by simp
qed

theorem provide_error_kinds_witness:
  "fst (provide load_ok (settings_of [] False) no_cache (init (root_of OtherProfile), world0)) =
     Inl (MultipleLedgerManagerError unsupported_profile_msg) \<and>
   fst (provide load_missing (settings_of [] False) no_cache (init (root_of AskarProfile), world0)) =
     Inl (InjectionError (unknown_type_msg ''askar-profile'') (ClassNotFoundError askar_manager_path)) \<and>
   fst (provide load_ok \<lparr>ledger_ledger_config_list = None, ledger_genesis_transactions = None\<rparr>
          no_cache (init (root_of AskarProfile), world0)) = Inl TypeError"
proof -
  let ?none = "\<lparr>ledger_ledger_config_list = None, ledger_genesis_transactions = None\<rparr>"
  let ?w = "emit (LogInfo (create_msg ''askar-profile'')) world0"
  have a: "kind (root_profile (init (root_of OtherProfile))) = OtherProfile"
    by (simp add: init_def root_of_def)
  have s: "select_manager_type (root_profile (init (root_of AskarProfile))) = Inr ''askar-profile''"
    "inst (init (root_of AskarProfile)) (map_of MANAGER_TYPES ''askar-profile'') = None"
    by (simp_all add: eval_defs)
  have b: "fst (build_ledgers (settings_of [] False) no_cache (root_profile (init (root_of AskarProfile)))
             ''askar-profile'' ?w) = Inr empty_build"
    "load_missing (map_of MANAGER_TYPES ''askar-profile'') = Some (ClassNotFoundError askar_manager_path)"
    by (simp_all add: eval_defs)
  have c: "fst (construct load_ok ?none no_cache (root_profile (init (root_of AskarProfile)))
             ''askar-profile'' (map_of MANAGER_TYPES ''askar-profile'') ?w) = Inl TypeError"
    "class_of TypeError \<noteq> CClassNotFoundError"
    by (simp_all add: eval_defs)
  from a provide_error_kinds [of "init (root_of OtherProfile)" load_ok "settings_of [] False" no_cache world0]
  have 1: "fst (provide load_ok (settings_of [] False) no_cache (init (root_of OtherProfile), world0)) =
     Inl (MultipleLedgerManagerError unsupported_profile_msg)"
    by blast
  from s b provide_error_kinds [of "init (root_of AskarProfile)" load_missing "settings_of [] False"
      no_cache world0 "''askar-profile''" empty_build askar_manager_path]
  have 2: "fst (provide load_missing (settings_of [] False) no_cache (init (root_of AskarProfile), world0)) =
     Inl (InjectionError (unknown_type_msg ''askar-profile'') (ClassNotFoundError askar_manager_path))"
    by blast
  from s c provide_error_kinds [of "init (root_of AskarProfile)" load_ok ?none
      no_cache world0 "''askar-profile''" _ _ TypeError]
  have 3: "fst (provide load_ok ?none no_cache (init (root_of AskarProfile), world0)) = Inl TypeError"
    by blast
  from 1 2 3 show ?thesis by simp
qed

text \<open>
  C8. A call of \<^verbatim>\<open>provide\<close> that raises leaves the provider, and so its cache, as it
  was. A call that returns a manager leaves the cache with that manager under the class
  path of the variant and otherwise as it was; the manager is the one that was cached
  there or holds the two partitions and the write ledger the construction built.
\<close>

theorem provide_all_or_nothing:
  "case provide lc st ij (self, w) of
     (Inl e, self', w') \<Rightarrow> self' = self
   | (Inr m, self', w') \<Rightarrow>
       (\<exists>mt. select_manager_type (root_profile self) = Inr mt \<and>
          self' = self\<lparr>inst := (inst self)(map_of MANAGER_TYPES mt \<mapsto> m)\<rparr> \<and>
          (inst self (map_of MANAGER_TYPES mt) = Some m \<or>
           (\<exists>b w1. build_ledgers st ij (root_profile self) mt
                      (emit (LogInfo (create_msg mt)) w) = (Inr b, w1) \<and>
                    production_ledgers m = production b \<and>
                    non_production_ledgers m = non_production b \<and>
                    write_ledger_info m = write_info b)))"
proof -
  obtain r self' w' where r: "provide lc st ij (self, w) = (r, self', w')"
    by (cases "provide lc st ij (self, w)")
  show ?thesis
  proof (cases r)
    case (Inl e)
    with r provide_Inl_unchanged [of lc st ij self w e self' w'] show ?thesis by simp
  next
    case (Inr m)
    with r have p: "provide lc st ij (self, w) = (Inr m, self', w')" by simp
    from provide_Inr_cached [OF p] obtain mt where
      mt: "select_manager_type (root_profile self) = Inr mt"
      and rp: "root_profile self' = root_profile self"
      and up: "inst self' = (inst self)(map_of MANAGER_TYPES mt \<mapsto> m)"
      by blast
    from rp up have eq: "self' = self\<lparr>inst := (inst self)(map_of MANAGER_TYPES mt \<mapsto> m)\<rparr>"
      by simp
    show ?thesis
    proof (cases "inst self (map_of MANAGER_TYPES mt)")
      case (Some m0)
      with mt p have "m0 = m" by (simp add: provide_hit)
      with Some mt eq r Inr show ?thesis by simp
    next
      case None
      from construct_Inr [OF provide_new [OF mt None p]] obtain b w1 where
        "build_ledgers st ij (root_profile self) mt
           (emit (LogInfo (create_msg mt)) w) = (Inr b, w1)"
        "production_ledgers m = production b" "non_production_ledgers m = non_production b"
        "write_ledger_info m = write_info b"
        by auto
      with mt eq r Inr show ?thesis by auto
    qed
  qed
qed

text \<open>
  C9, as the claim states it, fails: an entry with every field missing raises nothing.
  The manager is built, with the entry in the non-production partition under the key
  \<^verbatim>\<open>None\<close>, its pool built from \<^verbatim>\<open>None\<close> arguments, and no write ledger.
\<close>

theorem missing_fields_no_error:
  "fst (provide load_ok (settings_of [blank_entry] False) no_cache
          (init (root_of IndySdkProfile), world0)) =
   Inr \<lparr>manager_ref = 5, manager_cls = Some basic_manager_path, manager_profile = 2,
        production_ledgers = [],
        non_production_ledgers =
          [(None, \<lparr>ledger_ref = 4, ledger_cls = IndySdkLedger,
                    pool = \<lparr>pool_ref = 3, pool_cls = IndySdkLedgerPool, name = None,
                            keepalive = None, cache = None, genesis_transactions = None,
                            read_only = None, socks_proxy = None\<rparr>,
                    profile = 2\<rparr>)],
        write_ledger_info = None\<rparr>"
  by (simp add: eval_defs)

text \<open>
  C9, amended. A missing field of an entry is read as \<^verbatim>\<open>None\<close> and raises nothing:
  with a recognised root profile, no cached manager, a manager class that loads and,
  when the genesis setting is set, a fallback ledger with a named pool (and, on the
  askar-profile variant, an entry that is the write ledger), \<^verbatim>\<open>provide\<close> returns a
  manager for any list of entries. An entry is in the production partition when its
  \<^verbatim>\<open>is_production\<close> is true and in the non-production one otherwise, also when the field
  is missing; without a true \<^verbatim>\<open>is_write\<close> and without the genesis setting there is no
  write ledger.
\<close>

theorem entries_never_raise:
  assumes "select_manager_type (root_profile self) = Inr mt"
    and "inst self (map_of MANAGER_TYPES mt) = None"
    and "ledger_ledger_config_list st = Some cs"
    and "lc (map_of MANAGER_TYPES mt) = None"
    and "truthy_str (ledger_genesis_transactions st) \<longrightarrow>
           (\<exists>l n. base_ledger (root_profile self) = Some l \<and> name (pool l) = Some n) \<and>
           (mt = ''basic'' \<or> (\<exists>c \<in> set cs. truthy_bool (cfg_is_write c)))"
  shows "\<exists>m self' w'. provide lc st ij (self, w) = (Inr m, self', w') \<and>
           set (keys (production_ledgers m)) =
             cfg_id ` {c \<in> set cs. cfg_is_production c = Some True} \<union>
             injected_ids st (root_profile self) \<and>
           set (keys (non_production_ledgers m)) =
             cfg_id ` {c \<in> set cs. cfg_is_production c \<noteq> Some True} \<and>
           ((\<forall>c \<in> set cs. cfg_is_write c \<noteq> Some True) \<and>
            \<not> truthy_str (ledger_genesis_transactions st) \<longrightarrow> write_ledger_info m = None)"
proof -
  let ?rp = "root_profile self"
  let ?w0 = "emit (LogInfo (create_msg mt)) w"
  from build_ledgers_succeeds [OF assms(3,5)] obtain b w1 where
    b: "build_ledgers st ij ?rp mt ?w0 = (Inr b, w1)" by blast
  let ?m = "\<lparr>manager_ref = next_ref w1, manager_cls = map_of MANAGER_TYPES mt,
             manager_profile = profile_ref ?rp,
             production_ledgers = production b, non_production_ledgers = non_production b,
             write_ledger_info = write_info b\<rparr>"
  have t: "truthy_bool v \<longleftrightarrow> v = Some True" for v
    by (cases v) (simp_all add: truthy_bool_def)
  have p: "\<exists>self' w'. provide lc st ij (self, w) = (Inr ?m, self', w')"
    unfolding provide_miss [OF assms(1,2)] construct_succeeds [where lc = lc, OF b assms(4)]
    by simp
  note k = build_ledgers_keys(1,2) [OF b assms(3)]
  have wr: "write_info b = None"
    if "\<forall>c \<in> set cs. cfg_is_write c \<noteq> Some True" "\<not> truthy_str (ledger_genesis_transactions st)"
  proof -
    from build_ledgers_Inr [OF b] assms(3) that(2)
    have "b = fst (config_loop mt ?rp ij cs (empty_build, emit (GetValue ''ledger.ledger_config_list'') ?w0))"
      by simp
    with that(1) show ?thesis
      by (simp add: config_loop_write_info_None t empty_build_def)
  qed
  from p k wr show ?thesis by (auto simp: t)
qed

theorem entries_never_raise_witness:
  "\<exists>m self' w'. provide load_ok (settings_of [blank_entry, entry ''L1'' True False] False) no_cache
                   (init (root_of AskarProfile), world0) = (Inr m, self', w') \<and>
     set (keys (production_ledgers m)) = {Some ''L1''} \<and>
     set (keys (non_production_ledgers m)) = {None} \<and>
     write_ledger_info m = None"
proof -
  let ?cs = "[blank_entry, entry ''L1'' True False]"
  let ?st = "settings_of ?cs False"
  let ?self = "init (root_of AskarProfile)"
  have h1: "select_manager_type (root_profile ?self) = Inr ''askar-profile''"
    by (simp add: eval_defs)
  have h2: "inst ?self (map_of MANAGER_TYPES ''askar-profile'') = None"
    by (simp add: init_def)
  have h3: "ledger_ledger_config_list ?st = Some ?cs"
    by (simp add: settings_of_def)
  have h4: "load_ok (map_of MANAGER_TYPES ''askar-profile'') = None"
    by (simp add: load_ok_def)
  have h5: "truthy_str (ledger_genesis_transactions ?st) \<longrightarrow>
      (\<exists>l n. base_ledger (root_profile ?self) = Some l \<and> name (pool l) = Some n) \<and>
      (''askar-profile'' = ''basic'' \<or> (\<exists>c \<in> set ?cs. truthy_bool (cfg_is_write c)))"
    by (simp add: settings_of_def truthy_str_def)
  have e1: "cfg_id ` {c \<in> set ?cs. cfg_is_production c = Some True} \<union>
             injected_ids ?st (root_profile ?self) = {Some ''L1''}"
    by (simp only: image_Collect_set) (simp add: eval_defs)
  have e2: "cfg_id ` {c \<in> set ?cs. cfg_is_production c \<noteq> Some True} = {None}"
    by (simp only: image_Collect_set) (simp add: eval_defs)
  have e3: "\<forall>c \<in> set ?cs. cfg_is_write c \<noteq> Some True"
    "\<not> truthy_str (ledger_genesis_transactions ?st)"
    by (simp_all add: eval_defs)
  from entries_never_raise [where lc = load_ok, OF h1 h2 h3 h4 h5, of no_cache world0]
  obtain m self' w' where
    "provide load_ok ?st no_cache (?self, world0) = (Inr m, self', w')"
    "set (keys (production_ledgers m)) =
       cfg_id ` {c \<in> set ?cs. cfg_is_production c = Some True} \<union>
       injected_ids ?st (root_profile ?self)"
    "set (keys (non_production_ledgers m)) =
       cfg_id ` {c \<in> set ?cs. cfg_is_production c \<noteq> Some True}"
    "(\<forall>c \<in> set ?cs. cfg_is_write c \<noteq> Some True) \<and>
       \<not> truthy_str (ledger_genesis_transactions ?st) \<longrightarrow> write_ledger_info m = None"
    by blast
  with e3 show ?thesis unfolding e1 e2 by blast
qed

text \<open>
  C10, as the claim states it, fails when an entry of the production partition has the
  synthetic id. With the production entries \<^verbatim>\<open>startup::main\<close> (the write ledger) and
  \<^verbatim>\<open>L2\<close>, the keys of the production partition are the same with and without the
  genesis setting, in both variants: nothing is appended at the end. The fallback
  ledger (reference 1) has taken the place of the ledger built for the entry
  (reference 4).
\<close>

theorem fallback_not_appended:
  "map_sum id (\<lambda>m. (keys (production_ledgers m), map (ledger_ref \<circ> snd) (production_ledgers m)))
     (fst (provide load_ok
             (settings_of [entry ''startup::main'' True True, entry ''L2'' True False] False)
             no_cache (init (root_of IndySdkProfile), world0))) =
     Inr ([Some ''startup::main'', Some ''L2''], [4, 6]) \<and>
   map_sum id (\<lambda>m. (keys (production_ledgers m), map (ledger_ref \<circ> snd) (production_ledgers m)))
     (fst (provide load_ok
             (settings_of [entry ''startup::main'' True True, entry ''L2'' True False] True)
             no_cache (init (root_of IndySdkProfile), world0))) =
     Inr ([Some ''startup::main'', Some ''L2''], [1, 6]) \<and>
   map_sum id (\<lambda>m. (keys (production_ledgers m), map (ledger_ref \<circ> snd) (production_ledgers m)))
     (fst (provide load_ok
             (settings_of [entry ''startup::main'' True True, entry ''L2'' True False] True)
             no_cache (init (root_of AskarProfile), world0))) =
     Inr ([Some ''startup::main'', Some ''L2''], [1, 6])"
  by (simp add: eval_defs)

text \<open>
  C10, amended. When an entry has set the write ledger, the fallback step is the same
  in both variants: it leaves the non-production partition and the write ledger as they
  are and moves nothing. With a synthetic id that is no key of the production partition
  yet, it appends the id, with the fallback ledger, at the end of that partition; with
  one that is a key, the key stays where it is and gets the fallback ledger. The other
  items of the production partition keep their order and their ledgers.
\<close>

theorem fallback_keeps_write:
  assumes "write_info b = Some wl" "base_ledger rp = Some l" "name (pool l) = Some n"
  shows "\<exists>b'. fst (basic_fallback rp b w) = Inr b' \<and> fst (askar_fallback rp b w) = Inr b' \<and>
           non_production b' = non_production b \<and>
           write_info b' = Some wl \<and>
           keys (production b') =
             (if Some (''startup::'' @ n) \<in> set (keys (production b)) then keys (production b)
              else keys (production b) @ [Some (''startup::'' @ n)]) \<and>
           map_of (production b') (Some (''startup::'' @ n)) = Some l \<and>
           filter (\<lambda>p. fst p \<noteq> Some (''startup::'' @ n)) (production b') =
             filter (\<lambda>p. fst p \<noteq> Some (''startup::'' @ n)) (production b)"
  using assms keys_od_setitem [of "production b" "Some (''startup::'' @ n)" l]
  by (simp add: basic_fallback_write_set [OF assms] askar_fallback_write_set [OF assms]
      map_of_od_setitem filter_od_setitem)

theorem fallback_keeps_write_witness:
  "write_info written_partitions =
     Some (Some ''L1'', entry_ledger ''basic'' (root_of IndySdkProfile) no_cache (entry ''L1'' True True) 3) \<and>
   (\<exists>b'. fst (basic_fallback (root_of IndySdkProfile) written_partitions world0) = Inr b' \<and>
         fst (askar_fallback (root_of IndySdkProfile) written_partitions world0) = Inr b' \<and>
         non_production b' = non_production written_partitions \<and>
         write_info b' = write_info written_partitions \<and>
         keys (production b') = [Some ''L1'', Some ''startup::main''] \<and>
         map_of (production b') (Some ''startup::main'') = Some main_ledger)"
proof -
  have h: "write_info written_partitions =
     Some (Some ''L1'', entry_ledger ''basic'' (root_of IndySdkProfile) no_cache (entry ''L1'' True True) 3)"
    "base_ledger (root_of IndySdkProfile) = Some main_ledger"
    "name (pool main_ledger) = Some ''main''"
    by (simp_all add: written_partitions_def eval_defs)
  have k: "keys (production written_partitions) = [Some ''L1'']"
    by (simp add: written_partitions_def eval_defs)
  from fallback_keeps_write [OF h, of world0] h(1) k show ?thesis by auto
qed
end
